theory Spec2Isabelle
  imports Main "HOL-Library.Word" "HOL-Library.Signed_Division"
begin

section \<open>The evaluator of Nuru: data model\<close>

text \<open>
  This theory embeds \<^verbatim>\<open>src/evaluator/evaluator.go\<close>. The packages \<^verbatim>\<open>ast\<close> and
  \<^verbatim>\<open>object\<close> are imported by that file but are not part of it; their types are
  modelled below from the way the evaluator uses them and from the specification.
\<close>

subsection \<open>Outcomes of a Go call\<close>

text \<open>
  A Go call returns, panics (the runtime aborts the program) or runs forever. The
  recursive functions below take a fuel argument; \<open>Timeout\<close> is the result of running
  out of it.
\<close>

datatype 'a res = Ok 'a | Panic string | Timeout

definition res_bind :: "'a res \<Rightarrow> ('a \<Rightarrow> 'b res) \<Rightarrow> 'b res" where
  "res_bind m f = (case m of Ok x \<Rightarrow> f x | Panic msg \<Rightarrow> Panic msg | Timeout \<Rightarrow> Timeout)"

subsection \<open>Syntax trees (package ast)\<close>

type_synonym int64 = "64 word"

text \<open>A \<^verbatim>\<open>float64\<close> is its 64 bits; its arithmetic is a parameter of the model (see \<open>ctx\<close>).\<close>

type_synonym float64 = "64 word"

text \<open>
  Only the fields the evaluator reads are kept. A field of Go type
  \<^verbatim>\<open>*ast.BlockStatement\<close> is the list of the block's statements. The pairs of a
  \<^verbatim>\<open>DictLiteral\<close> are a Go map, ranged over in an order Go leaves open: the list is the
  order of one run. A switch clause is (Default, Expr, Block).
\<close>

datatype node =
    Program "node list"
  | ExpressionStatement node
  | IntegerLiteral int64
  | FloatLiteral float64
  | BooleanLiteral bool
  | PrefixExpression int string node
  | InfixExpression int string node node
  | PostfixExpression int string string string
  | BlockStatement "node list"
  | IfExpression node "node list" "node list option"
  | ReturnStatement node
  | LetStatement string node
  | Identifier int string
  | FunctionLiteral "string list" "node list"
  | CallExpression int node "node list"
  | StringLiteral string
  | ArrayLiteral "node list"
  | IndexExpression int node node
  | DictLiteral int "(node \<times> node) list"
  | WhileExpression node "node list"
  | BreakNode
  | ContinueNode
  | SwitchExpression node "(bool \<times> node list \<times> node list) list"
  | NullLiteral
  | ForIn int string string node "node list"
  | AssignmentExpression int string node node
  | OtherNode

text \<open>
  Argument order: \<open>PrefixExpression line operator right\<close>,
  \<open>InfixExpression line operator left right\<close>,
  \<open>PostfixExpression line tokenType tokenLiteral operator\<close>,
  \<open>IfExpression condition consequence alternative\<close>, \<open>Identifier line value\<close>,
  \<open>CallExpression line function arguments\<close>, \<open>IndexExpression line left index\<close>,
  \<open>ForIn line key value iterable block\<close>,
  \<open>AssignmentExpression line tokenLiteral left value\<close>. \<open>OtherNode\<close> is any node kind
  that the type switch of \<^verbatim>\<open>Eval\<close> has no case for.
\<close>

subsection \<open>Runtime values (package object)\<close>

text \<open>
  Modelled from the spec: the environment of section 3.2, a local map from names to values
  and an optional pointer to the outer environment. A Go map is a reference, so the local
  map is the address of a store in the state; \<^verbatim>\<open>outer\<close> is set once, when the
  environment is made. Equal \<open>env\<close> values are the same Go pointer.
\<close>

datatype env = Env nat "env option"

datatype obj_type =
    INTEGER_OBJ | FLOAT_OBJ | BOOLEAN_OBJ | NULL_OBJ | RETURN_VALUE_OBJ | ERROR_OBJ
  | FUNCTION_OBJ | STRING_OBJ | BUILTIN_OBJ | ARRAY_OBJ | DICT_OBJ | CONTINUE_OBJ | BREAK_OBJ

text \<open>
  \<open>object\<close> is the Go interface type \<^verbatim>\<open>object.Object\<close>: \<open>Nil\<close> is the nil interface
  value, every other constructor a pointer to a struct. Arrays and dicts are mutable and
  shared, so they are addresses into the state; a function and a return value carry the
  address they were allocated at, which is all that \<^verbatim>\<open>==\<close> on two of them compares.
  \<open>Boolean\<close>, \<open>Null\<close>, \<open>Break\<close> and \<open>Continue\<close> are the singletons TRUE, FALSE, NULL,
  BREAK and CONTINUE. A builtin is named by its key in the registry. The selectors stand
  for Go's type assertions and are applied only where the tag has been tested.
\<close>

datatype object =
    Nil
  | Integer (int_Value: int64)
  | Float (float_Value: float64)
  | Boolean (bool_Value: bool)
  | String (str_Value: string)
  | Null
  | Array (Elements_of: nat)
  | Dict (Pairs_of: nat)
  | Function nat "string list" "node list" env
  | Builtin string
  | ReturnValue nat object
  | Error string
  | Break
  | Continue

text \<open>
  Modelled from the spec: Integer, Float, Boolean and String are hashable, and a hash key is
  "derived from its tag + content sufficient to distinguish values across those four
  types": the key of a hashable value is the value.
\<close>

definition HashKey :: "object \<Rightarrow> object option" where
  "HashKey obj = (case obj of
       Integer i \<Rightarrow> Some obj
     | Float f \<Rightarrow> Some obj
     | Boolean b \<Rightarrow> Some obj
     | String s \<Rightarrow> Some obj
     | _ \<Rightarrow> None)"

text \<open>
  The state: the stores of the environments, the element slices of the arrays, the pairs
  of the dicts, the iteration offsets behind \<^verbatim>\<open>Next\<close> and \<^verbatim>\<open>Reset\<close>, and the next
  free address. Two distinct array objects never share elements here (Go slices made by
  \<^verbatim>\<open>append\<close> may share a backing array).
\<close>

record state =
  stores :: "nat \<Rightarrow> (string \<rightharpoonup> object)"
  arrays :: "nat \<Rightarrow> object list"
  dicts :: "nat \<Rightarrow> (object \<rightharpoonup> object \<times> object)"
  offsets :: "object \<Rightarrow> nat"
  next_addr :: nat

datatype fmt_arg = ArgInt int | ArgStr string | ArgType "obj_type option" | ArgObj object

text \<open>
  What the evaluator calls and this file does not hold: the builtin registry and the
  native functions in it, \<^verbatim>\<open>Inspect\<close>, the \<^verbatim>\<open>Iterable\<close> methods, \<^verbatim>\<open>fmt.Sprintf\<close>
  and IEEE-754 arithmetic. They are parameters.
\<close>

record ctx =
  builtins :: "string \<Rightarrow> bool"
  builtin_fn :: "string \<Rightarrow> object list \<Rightarrow> state \<Rightarrow> (object \<times> state) res"
  inspect :: "state \<Rightarrow> object \<Rightarrow> string"
  sprintf :: "string \<Rightarrow> fmt_arg list \<Rightarrow> string"
  is_iterable :: "object \<Rightarrow> bool"
  iter_next :: "object \<Rightarrow> state \<Rightarrow> (object \<times> object) \<times> state"
  iter_reset :: "object \<Rightarrow> state \<Rightarrow> state"
  f64_of_int :: "int64 \<Rightarrow> float64"
  f64_to_int :: "float64 \<Rightarrow> int64"
  f64_neg :: "float64 \<Rightarrow> float64"
  f64_add :: "float64 \<Rightarrow> float64 \<Rightarrow> float64"
  f64_sub :: "float64 \<Rightarrow> float64 \<Rightarrow> float64"
  f64_mul :: "float64 \<Rightarrow> float64 \<Rightarrow> float64"
  f64_div :: "float64 \<Rightarrow> float64 \<Rightarrow> float64"
  f64_pow :: "float64 \<Rightarrow> float64 \<Rightarrow> float64"
  f64_lt :: "float64 \<Rightarrow> float64 \<Rightarrow> bool"
  f64_le :: "float64 \<Rightarrow> float64 \<Rightarrow> bool"
  f64_eq :: "float64 \<Rightarrow> float64 \<Rightarrow> bool"
  f64_mod1_is_zero :: "float64 \<Rightarrow> bool"


section \<open>Values: tags, errors, truthiness\<close>

text \<open>\<^verbatim>\<open>Type()\<close>; calling it on the nil interface panics, which the callers below write out.\<close>

fun Type :: "object \<Rightarrow> obj_type option" where
  "Type Nil = None"
| "Type (Integer i) = Some INTEGER_OBJ"
| "Type (Float f) = Some FLOAT_OBJ"
| "Type (Boolean b) = Some BOOLEAN_OBJ"
| "Type (String s) = Some STRING_OBJ"
| "Type Null = Some NULL_OBJ"
| "Type (Array a) = Some ARRAY_OBJ"
| "Type (Dict d) = Some DICT_OBJ"
| "Type (Function i ps body e) = Some FUNCTION_OBJ"
| "Type (Builtin name) = Some BUILTIN_OBJ"
| "Type (ReturnValue i v) = Some RETURN_VALUE_OBJ"
| "Type (Error msg) = Some ERROR_OBJ"
| "Type Break = Some BREAK_OBJ"
| "Type Continue = Some CONTINUE_OBJ"

definition nil_deref :: "'a res" where
  "nil_deref = Panic ''invalid memory address or nil pointer dereference''"

text \<open>
  \<^verbatim>\<open>newError\<close> first wraps the format in the ANSI codes for red,
  \<^verbatim>\<open>Sprintf("\\x1b[%dm%s\\x1b[0m", 31, format)\<close>, then formats the arguments.
\<close>

definition ansi_red :: "string \<Rightarrow> string" where
  "ansi_red format = [CHR 0x1B] @ ''[31m'' @ format @ [CHR 0x1B] @ ''[0m''"

definition newError :: "ctx \<Rightarrow> string \<Rightarrow> fmt_arg list \<Rightarrow> object" where
  "newError c format a = Error (sprintf c (ansi_red format) a)"

definition isError :: "object \<Rightarrow> bool" where
  "isError obj = (if obj \<noteq> Nil then Type obj = Some ERROR_OBJ else False)"

definition nativeBoolToBooleanObject :: "bool \<Rightarrow> object" where
  "nativeBoolToBooleanObject input = (if input then Boolean True else Boolean False)"

definition isTruthy :: "object \<Rightarrow> bool" where
  "isTruthy obj =
     (if obj = Null then False
      else if obj = Boolean True then True
      else if obj = Boolean False then False
      else True)"

definition unwrapReturnValue :: "object \<Rightarrow> object" where
  "unwrapReturnValue obj = (case obj of ReturnValue i v \<Rightarrow> v | _ \<Rightarrow> obj)"

section \<open>Environments\<close>

text \<open>
  Modelled from the spec: \<^verbatim>\<open>get(name)\<close> "walks local then outer recursively; returns
  value + found flag"; \<^verbatim>\<open>set(name, value)\<close> "writes to the local map unconditionally
  and returns the value"; \<^verbatim>\<open>new_enclosed(outer)\<close> "creates an empty local environment
  whose parent is outer".
\<close>

fun Get :: "state \<Rightarrow> env \<Rightarrow> string \<Rightarrow> object option" where
  "Get s (Env a outer) name =
     (case stores s a name of
        Some v \<Rightarrow> Some v
      | None \<Rightarrow> (case outer of None \<Rightarrow> None | Some e \<Rightarrow> Get s e name))"

fun Set :: "state \<Rightarrow> env \<Rightarrow> string \<Rightarrow> object \<Rightarrow> state" where
  "Set s (Env a outer) name val = s\<lparr>stores := (stores s)(a := (stores s a)(name \<mapsto> val))\<rparr>"

definition NewEnclosedEnvironment :: "env \<Rightarrow> state \<Rightarrow> env \<times> state" where
  "NewEnclosedEnvironment outer s =
     (Env (next_addr s) (Some outer),
      s\<lparr>stores := (stores s)(next_addr s := Map.empty), next_addr := Suc (next_addr s)\<rparr>)"

definition new_Array :: "object list \<Rightarrow> state \<Rightarrow> object \<times> state" where
  "new_Array elements s =
     (Array (next_addr s),
      s\<lparr>arrays := (arrays s)(next_addr s := elements), next_addr := Suc (next_addr s)\<rparr>)"

definition new_Dict :: "(object \<rightharpoonup> object \<times> object) \<Rightarrow> state \<Rightarrow> object \<times> state" where
  "new_Dict pairs s =
     (Dict (next_addr s),
      s\<lparr>dicts := (dicts s)(next_addr s := pairs), next_addr := Suc (next_addr s)\<rparr>)"

section \<open>The operator engine\<close>

subsection \<open>Prefix operators\<close>

definition evalBangOperatorExpression :: "object \<Rightarrow> object" where
  "evalBangOperatorExpression right =
     (if right = Boolean True then Boolean False
      else if right = Boolean False then Boolean True
      else if right = Null then Boolean True
      else Boolean False)"

definition evalMinusPrefixOperatorExpression :: "ctx \<Rightarrow> object \<Rightarrow> int \<Rightarrow> object res" where
  "evalMinusPrefixOperatorExpression c right line =
     (case right of
        Integer v \<Rightarrow> Ok (Integer (- v))
      | Float v \<Rightarrow> Ok (Float (f64_neg c v))
      | Nil \<Rightarrow> nil_deref
      | _ \<Rightarrow> Ok (newError c ''Mstari %d: Operesheni Haielweki: -%s'' [ArgInt line, ArgType (Type right)]))"

definition evalPlusPrefixOperatorExpression :: "ctx \<Rightarrow> object \<Rightarrow> int \<Rightarrow> object res" where
  "evalPlusPrefixOperatorExpression c right line =
     (case right of
        Integer v \<Rightarrow> Ok (Integer v)
      | Float v \<Rightarrow> Ok (Float v)
      | Nil \<Rightarrow> nil_deref
      | _ \<Rightarrow> Ok (newError c ''Mstari %d: Operesheni Haielweki: -%s'' [ArgInt line, ArgType (Type right)]))"

definition evalPrefixExpression :: "ctx \<Rightarrow> string \<Rightarrow> object \<Rightarrow> int \<Rightarrow> object res" where
  "evalPrefixExpression c operator right line =
     (if operator = ''!'' then Ok (evalBangOperatorExpression right)
      else if operator = ''-'' then evalMinusPrefixOperatorExpression c right line
      else if operator = ''+'' then evalPlusPrefixOperatorExpression c right line
      else if right = Nil then nil_deref
      else Ok (newError c ''Mstari %d: Operesheni haieleweki: %s%s''
                 [ArgInt line, ArgStr operator, ArgType (Type right)]))"

subsection \<open>Go library functions on strings\<close>

text \<open>
  \<^verbatim>\<open>strings.Repeat\<close> of the Go standard library: "It panics if count is negative or if
  the result of (len(s) * count) overflows." An \<^verbatim>\<open>int\<close> has 64 bits.
\<close>

definition Repeat :: "string \<Rightarrow> int \<Rightarrow> string res" where
  "Repeat s count =
     (if count < 0 then Panic ''strings: negative Repeat count''
      else if int (length s) * count > 2 ^ 63 - 1 then Panic ''strings: Repeat output length overflow''
      else Ok (concat (replicate (nat count) s)))"

text \<open>\<^verbatim>\<open>strings.Contains(s, substr)\<close>: \<open>substr\<close> occurs in \<open>s\<close>.\<close>

fun Contains :: "string \<Rightarrow> string \<Rightarrow> bool" where
  "Contains [] substr = (substr = [])"
| "Contains (x # xs) substr = (take (length substr) (x # xs) = substr \<or> Contains xs substr)"


subsection \<open>Infix operators\<close>

definition evalStringInfixExpression ::
  "ctx \<Rightarrow> string \<Rightarrow> object \<Rightarrow> object \<Rightarrow> int \<Rightarrow> object" where
  "evalStringInfixExpression c operator left right line =
     (let leftVal = str_Value left; rightVal = str_Value right in
      if operator = ''+'' then String (leftVal @ rightVal)
      else if operator = ''=='' then nativeBoolToBooleanObject (leftVal = rightVal)
      else if operator = ''!='' then nativeBoolToBooleanObject (leftVal \<noteq> rightVal)
      else newError c ''Mstari %d: Operesheni Haielweki: %s %s %s''
             [ArgInt line, ArgType (Type left), ArgStr operator, ArgType (Type right)])"

text \<open>
  \<^verbatim>\<open>%\<close> on \<^verbatim>\<open>int64\<close> truncates towards zero and panics on a zero divisor; \<^verbatim>\<open>+\<close>,
  \<^verbatim>\<open>-\<close> and \<^verbatim>\<open>*\<close> wrap around.
\<close>

definition evalIntegerInfixExpression ::
  "ctx \<Rightarrow> string \<Rightarrow> object \<Rightarrow> object \<Rightarrow> int \<Rightarrow> object res" where
  "evalIntegerInfixExpression c operator left right line =
     (let leftVal = int_Value left; rightVal = int_Value right in
      if operator = ''+'' then Ok (Integer (leftVal + rightVal))
      else if operator = ''-'' then Ok (Integer (leftVal - rightVal))
      else if operator = ''*'' then Ok (Integer (leftVal * rightVal))
      else if operator = ''**'' then
        Ok (Integer (f64_to_int c (f64_pow c (f64_of_int c leftVal) (f64_of_int c rightVal))))
      else if operator = ''/'' then
        (let x = f64_div c (f64_of_int c leftVal) (f64_of_int c rightVal) in
         if f64_mod1_is_zero c x then Ok (Integer (f64_to_int c x)) else Ok (Float x))
      else if operator = ''%'' then
        (if rightVal = 0 then Panic ''integer divide by zero''
         else Ok (Integer (word_of_int (sint leftVal smod sint rightVal))))
      else if operator = ''<'' then Ok (nativeBoolToBooleanObject (sint leftVal < sint rightVal))
      else if operator = ''<='' then Ok (nativeBoolToBooleanObject (sint leftVal \<le> sint rightVal))
      else if operator = ''>'' then Ok (nativeBoolToBooleanObject (sint leftVal > sint rightVal))
      else if operator = ''>='' then Ok (nativeBoolToBooleanObject (sint leftVal \<ge> sint rightVal))
      else if operator = ''=='' then Ok (nativeBoolToBooleanObject (leftVal = rightVal))
      else if operator = ''!='' then Ok (nativeBoolToBooleanObject (leftVal \<noteq> rightVal))
      else Ok (newError c ''Mstari %d: Operesheni Haielweki: %s %s %s''
                 [ArgInt line, ArgType (Type left), ArgStr operator, ArgType (Type right)]))"

definition float_compare :: "ctx \<Rightarrow> string \<Rightarrow> float64 \<Rightarrow> float64 \<Rightarrow> object option" where
  "float_compare c operator leftVal rightVal =
     (if operator = ''<'' then Some (nativeBoolToBooleanObject (f64_lt c leftVal rightVal))
      else if operator = ''<='' then Some (nativeBoolToBooleanObject (f64_le c leftVal rightVal))
      else if operator = ''>'' then Some (nativeBoolToBooleanObject (f64_lt c rightVal leftVal))
      else if operator = ''>='' then Some (nativeBoolToBooleanObject (f64_le c rightVal leftVal))
      else if operator = ''=='' then Some (nativeBoolToBooleanObject (f64_eq c leftVal rightVal))
      else if operator = ''!='' then Some (nativeBoolToBooleanObject (\<not> f64_eq c leftVal rightVal))
      else None)"

definition float_arith :: "ctx \<Rightarrow> string \<Rightarrow> float64 \<Rightarrow> float64 \<Rightarrow> float64 option" where
  "float_arith c operator leftVal rightVal =
     (if operator = ''+'' then Some (f64_add c leftVal rightVal)
      else if operator = ''-'' then Some (f64_sub c leftVal rightVal)
      else if operator = ''*'' then Some (f64_mul c leftVal rightVal)
      else if operator = ''**'' then Some (f64_pow c leftVal rightVal)
      else if operator = ''/'' then Some (f64_div c leftVal rightVal)
      else None)"

definition evalFloatInfixExpression ::
  "ctx \<Rightarrow> string \<Rightarrow> object \<Rightarrow> object \<Rightarrow> int \<Rightarrow> object" where
  "evalFloatInfixExpression c operator left right line =
     (let leftVal = float_Value left; rightVal = float_Value right in
      case float_arith c operator leftVal rightVal of
        Some val \<Rightarrow> Float val
      | None \<Rightarrow>
         (case float_compare c operator leftVal rightVal of
            Some b \<Rightarrow> b
          | None \<Rightarrow> newError c ''Mstari %d: Operesheni Haielweki: %s %s %s''
                 [ArgInt line, ArgType (Type left), ArgStr operator, ArgType (Type right)]))"

definition evalFloatIntegerInfixExpression ::
  "ctx \<Rightarrow> string \<Rightarrow> object \<Rightarrow> object \<Rightarrow> int \<Rightarrow> object" where
  "evalFloatIntegerInfixExpression c operator left right line =
     (let (leftVal, rightVal) =
            (if Type left = Some FLOAT_OBJ
             then (float_Value left, f64_of_int c (int_Value right))
             else (f64_of_int c (int_Value left), float_Value right)) in
      case float_arith c operator leftVal rightVal of
        Some val \<Rightarrow>
          (if f64_mod1_is_zero c val then Integer (f64_to_int c val) else Float val)
      | None \<Rightarrow>
         (case float_compare c operator leftVal rightVal of
            Some b \<Rightarrow> b
          | None \<Rightarrow> newError c ''Mstari %d: Operesheni Haielweki: %s %s %s''
                 [ArgInt line, ArgType (Type left), ArgStr operator, ArgType (Type right)]))"

definition evalBooleanInfixExpression ::
  "ctx \<Rightarrow> string \<Rightarrow> object \<Rightarrow> object \<Rightarrow> int \<Rightarrow> object" where
  "evalBooleanInfixExpression c operator left right line =
     (let leftVal = bool_Value left; rightVal = bool_Value right in
      if operator = ''&&'' then nativeBoolToBooleanObject (leftVal \<and> rightVal)
      else if operator = ''||'' then nativeBoolToBooleanObject (leftVal \<or> rightVal)
      else newError c ''Mstari %d: Operesheni Haielweki: %s %s %s''
             [ArgInt line, ArgType (Type left), ArgStr operator, ArgType (Type right)])"

subsection \<open>Containment\<close>

definition evalInStringExpression :: "object \<Rightarrow> object \<Rightarrow> object" where
  "evalInStringExpression left right =
     (if Type left \<noteq> Some STRING_OBJ then Boolean False
      else nativeBoolToBooleanObject (Contains (str_Value right) (str_Value left)))"

definition evalInDictExpression :: "ctx \<Rightarrow> object \<Rightarrow> object \<Rightarrow> int \<Rightarrow> state \<Rightarrow> object" where
  "evalInDictExpression c left right line s =
     (case HashKey left of
        None \<Rightarrow> newError c ''Huwezi kutumia kama 'key': %s'' [ArgType (Type left)]
      | Some key \<Rightarrow> nativeBoolToBooleanObject (dicts s (Pairs_of right) key \<noteq> None))"

text \<open>The four loops of \<^verbatim>\<open>evalInArrayExpression\<close>; each calls \<^verbatim>\<open>v.Type()\<close> first.\<close>

fun in_array_loop :: "(object \<Rightarrow> bool) \<Rightarrow> object list \<Rightarrow> object res" where
  "in_array_loop same [] = Ok (Boolean False)"
| "in_array_loop same (v # vs) =
     (if v = Nil then nil_deref
      else if same v then Ok (Boolean True)
      else in_array_loop same vs)"

definition evalInArrayExpression :: "ctx \<Rightarrow> object \<Rightarrow> object \<Rightarrow> state \<Rightarrow> object res" where
  "evalInArrayExpression c left right s =
     (let elems = arrays s (Elements_of right) in
      case left of
        Null \<Rightarrow> in_array_loop (\<lambda>v. Type v = Some NULL_OBJ) elems
      | String leftVal \<Rightarrow>
          in_array_loop (\<lambda>v. Type v = Some STRING_OBJ \<and> str_Value v = leftVal) elems
      | Integer leftVal \<Rightarrow>
          in_array_loop (\<lambda>v. Type v = Some INTEGER_OBJ \<and> int_Value v = leftVal) elems
      | Float leftVal \<Rightarrow>
          in_array_loop (\<lambda>v. Type v = Some FLOAT_OBJ \<and> f64_eq c (float_Value v) leftVal) elems
      | _ \<Rightarrow> Ok (Boolean False))"

definition evalInExpression :: "ctx \<Rightarrow> object \<Rightarrow> object \<Rightarrow> int \<Rightarrow> state \<Rightarrow> object res" where
  "evalInExpression c left right line s =
     (case right of
        String v \<Rightarrow> Ok (evalInStringExpression left right)
      | Array a \<Rightarrow> evalInArrayExpression c left right s
      | Dict d \<Rightarrow> Ok (evalInDictExpression c left right line s)
      | _ \<Rightarrow> Ok (Boolean False))"

subsection \<open>The dispatch of infix operators\<close>

text \<open>
  \<^verbatim>\<open>left == right\<close> on two interface values: the same dynamic type and the same
  pointer. It is reached only for operands that the earlier cases did not take, so never
  for two integers, two floats or two strings.
\<close>

definition same_pointer :: "object \<Rightarrow> object \<Rightarrow> bool" where
  "same_pointer x y =
     (case x of
        Nil \<Rightarrow> y = Nil
      | Boolean a \<Rightarrow> y = Boolean a
      | Null \<Rightarrow> y = Null
      | Break \<Rightarrow> y = Break
      | Continue \<Rightarrow> y = Continue
      | Array a \<Rightarrow> y = Array a
      | Dict a \<Rightarrow> y = Dict a
      | Function i ps body e \<Rightarrow> (case y of Function j qs body' e' \<Rightarrow> i = j | _ \<Rightarrow> False)
      | Builtin m \<Rightarrow> y = Builtin m
      | ReturnValue i v \<Rightarrow> (case y of ReturnValue j w \<Rightarrow> i = j | _ \<Rightarrow> False)
      | _ \<Rightarrow> False)"

text \<open>
  The loop \<^verbatim>\<open>for i := n; i > 1; i-- { elements = append(elements, leftVal...) }\<close>.
\<close>

function append_copies :: "int \<Rightarrow> object list \<Rightarrow> object list \<Rightarrow> object list" where
  "append_copies i elements leftVal =
     (if i > 1 then append_copies (i - 1) (elements @ leftVal) leftVal else elements)"
  by pat_completeness auto
termination
  by (relation "measure (\<lambda>(i, elements, leftVal). nat i)") auto

declare append_copies.simps [simp del]

text \<open>
  The cases of \<^verbatim>\<open>evalInfixExpression\<close> in the source's order. With a nil right operand
  the first case that reaches \<^verbatim>\<open>right.Type()\<close> panics: at once when the left operand is
  a string, an integer or a float; otherwise after the operator has been compared with
  \<^verbatim>\<open>ktk\<close>, \<^verbatim>\<open>==\<close> and \<^verbatim>\<open>!=\<close>.
\<close>

definition evalInfixExpression ::
  "ctx \<Rightarrow> string \<Rightarrow> object \<Rightarrow> object \<Rightarrow> int \<Rightarrow> state \<Rightarrow> (object \<times> state) res" where
  "evalInfixExpression c operator left right line s =
     (let tl = Type left; tr = Type right in
      if left = Nil then Ok (newError c ''Mstari %d: Umekosea hapa'' [ArgInt line], s)
      else if right = Nil then
        (if tl = Some STRING_OBJ \<or> tl = Some INTEGER_OBJ \<or> tl = Some FLOAT_OBJ then nil_deref
         else if operator = ''ktk'' then Ok (Boolean False, s)
         else if operator = ''=='' then Ok (nativeBoolToBooleanObject False, s)
         else if operator = ''!='' then Ok (nativeBoolToBooleanObject True, s)
         else nil_deref)
      else if tl = Some STRING_OBJ \<and> tr = Some STRING_OBJ then
        Ok (evalStringInfixExpression c operator left right line, s)
      else if operator = ''+'' \<and> tl = Some DICT_OBJ \<and> tr = Some DICT_OBJ then
        Ok (new_Dict (dicts s (Pairs_of left) ++ dicts s (Pairs_of right)) s)
      else if operator = ''+'' \<and> tl = Some ARRAY_OBJ \<and> tr = Some ARRAY_OBJ then
        Ok (new_Array (arrays s (Elements_of left) @ arrays s (Elements_of right)) s)
      else if operator = ''*'' \<and> tl = Some ARRAY_OBJ \<and> tr = Some INTEGER_OBJ then
        (let leftVal = arrays s (Elements_of left); rightVal = sint (int_Value right) in
         Ok (new_Array (append_copies rightVal leftVal leftVal) s))
      else if operator = ''*'' \<and> tl = Some INTEGER_OBJ \<and> tr = Some ARRAY_OBJ then
        (let leftVal = sint (int_Value left); rightVal = arrays s (Elements_of right) in
         Ok (new_Array (append_copies leftVal rightVal rightVal) s))
      else if operator = ''*'' \<and> tl = Some STRING_OBJ \<and> tr = Some INTEGER_OBJ then
        res_bind (Repeat (str_Value left) (sint (int_Value right))) (\<lambda>v. Ok (String v, s))
      else if operator = ''*'' \<and> tl = Some INTEGER_OBJ \<and> tr = Some STRING_OBJ then
        res_bind (Repeat (str_Value right) (sint (int_Value left))) (\<lambda>v. Ok (String v, s))
      else if tl = Some INTEGER_OBJ \<and> tr = Some INTEGER_OBJ then
        res_bind (evalIntegerInfixExpression c operator left right line) (\<lambda>v. Ok (v, s))
      else if tl = Some FLOAT_OBJ \<and> tr = Some FLOAT_OBJ then
        Ok (evalFloatInfixExpression c operator left right line, s)
      else if tl = Some INTEGER_OBJ \<and> tr = Some FLOAT_OBJ then
        Ok (evalFloatIntegerInfixExpression c operator left right line, s)
      else if tl = Some FLOAT_OBJ \<and> tr = Some INTEGER_OBJ then
        Ok (evalFloatIntegerInfixExpression c operator left right line, s)
      else if operator = ''ktk'' then
        res_bind (evalInExpression c left right line s) (\<lambda>v. Ok (v, s))
      else if operator = ''=='' then Ok (nativeBoolToBooleanObject (same_pointer left right), s)
      else if operator = ''!='' then Ok (nativeBoolToBooleanObject (\<not> same_pointer left right), s)
      else if tl = Some BOOLEAN_OBJ \<and> tr = Some BOOLEAN_OBJ then
        Ok (evalBooleanInfixExpression c operator left right line, s)
      else if tl \<noteq> tr then
        Ok (newError c ''Mstari %d: Aina Hazilingani: %s %s %s''
              [ArgInt line, ArgType tl, ArgStr operator, ArgType tr], s)
      else
        Ok (newError c ''Mstari %d: Operesheni Haielweki: %s %s %s''
              [ArgInt line, ArgType tl, ArgStr operator, ArgType tr], s))"


subsection \<open>Index and postfix operators, identifiers\<close>

definition evalArrayIndexExpression :: "object \<Rightarrow> object \<Rightarrow> state \<Rightarrow> object" where
  "evalArrayIndexExpression array index s =
     (let elems = arrays s (Elements_of array);
          idx = sint (int_Value index);
          max = int (length elems) - 1 in
      if idx < 0 \<or> idx > max then Null else elems ! nat idx)"

definition evalDictIndexExpression :: "ctx \<Rightarrow> object \<Rightarrow> object \<Rightarrow> int \<Rightarrow> state \<Rightarrow> object res" where
  "evalDictIndexExpression c dict index line s =
     (case HashKey index of
        None \<Rightarrow>
          (if index = Nil then nil_deref
           else Ok (newError c ''Mstari %d: Samahani, %s haitumiki kama key''
                      [ArgInt line, ArgType (Type index)]))
      | Some key \<Rightarrow>
          (case dicts s (Pairs_of dict) key of
             None \<Rightarrow> Ok Null
           | Some pair \<Rightarrow> Ok (snd pair)))"

definition evalIndexExpression :: "ctx \<Rightarrow> object \<Rightarrow> object \<Rightarrow> int \<Rightarrow> state \<Rightarrow> object res" where
  "evalIndexExpression c left index line s =
     (if left = Nil then nil_deref
      else if Type left = Some ARRAY_OBJ then
        (if index = Nil then nil_deref
         else if Type index = Some INTEGER_OBJ then Ok (evalArrayIndexExpression left index s)
         else Ok (newError c ''Mstari %d: Tafadhali tumia number, sio: %s''
                    [ArgInt line, ArgType (Type index)]))
      else if Type left = Some DICT_OBJ then evalDictIndexExpression c left index line s
      else Ok (newError c ''Mstari %d: Operesheni hii haiwezekani kwa: %s''
                 [ArgInt line, ArgType (Type left)]))"

definition postfix_hint :: string where
  "postfix_hint = ''. Tumia '++' na kitambulishi cha namba au desimali.'' @ [CHR 0x0A]
       @ ''Mfano:'' @ [CHR 0x09] @ ''fanya i = 2; i++''"

definition postfix_hint_dec :: string where
  "postfix_hint_dec = ''. Tumia '--' na kitambulishi cha namba au desimali.'' @ [CHR 0x0A]
       @ ''Mfano:'' @ [CHR 0x09] @ ''fanya i = 2; i++''"

definition evalPostfixExpression ::
  "ctx \<Rightarrow> env \<Rightarrow> string \<Rightarrow> int \<Rightarrow> string \<Rightarrow> string \<Rightarrow> state \<Rightarrow> object \<times> state" where
  "evalPostfixExpression c env operator line tokenType tokenLiteral s =
     (case Get s env tokenLiteral of
        None \<Rightarrow>
          (newError c ''Tumia KITAMBULISHI CHA NAMBA AU DESIMALI, sio %s'' [ArgStr tokenType], s)
      | Some val \<Rightarrow>
          if operator = ''++'' then
            (case val of
               Integer v \<Rightarrow> (Integer (v + 1), Set s env tokenLiteral (Integer (v + 1)))
             | Float v \<Rightarrow>
                 (Float (f64_add c v (f64_of_int c 1)),
                  Set s env tokenLiteral (Float (f64_add c v (f64_of_int c 1))))
             | _ \<Rightarrow> (newError c (''Mstari %d: %s sio kitambulishi cha namba'' @ postfix_hint)
                       [ArgInt line, ArgStr tokenLiteral], s))
          else if operator = ''--'' then
            (case val of
               Integer v \<Rightarrow> (Integer (v - 1), Set s env tokenLiteral (Integer (v - 1)))
             | Float v \<Rightarrow>
                 (Float (f64_sub c v (f64_of_int c 1)),
                  Set s env tokenLiteral (Float (f64_sub c v (f64_of_int c 1))))
             | _ \<Rightarrow> (newError c (''Mstari %d: %s sio kitambulishi cha namba'' @ postfix_hint_dec)
                       [ArgInt line, ArgStr tokenLiteral], s))
          else (newError c ''Haifahamiki: %s'' [ArgStr operator], s))"

definition evalIdentifier :: "ctx \<Rightarrow> int \<Rightarrow> string \<Rightarrow> env \<Rightarrow> state \<Rightarrow> object" where
  "evalIdentifier c line name env s =
     (case Get s env name of
        Some val \<Rightarrow> val
      | None \<Rightarrow>
          if builtins c name then Builtin name
          else newError c ''Mstari %d: Neno Halifahamiki: %s'' [ArgInt line, ArgStr name])"

section \<open>Function application\<close>

definition extendedFunctionEnv :: "string list \<Rightarrow> env \<Rightarrow> object list \<Rightarrow> state \<Rightarrow> env \<times> state" where
  "extendedFunctionEnv params fnEnv args s =
     (let (env, s1) = NewEnclosedEnvironment fnEnv s in
      (env, foldl (\<lambda>st (param, arg). Set st env param arg) s1 (zip params args)))"

section \<open>The assignment store\<close>

text \<open>
  The slot write \<^verbatim>\<open>array.Elements[idx.Value] = value\<close> after the evaluator's own test
  \<^verbatim>\<open>int(idx.Value) > len(array.Elements)\<close>; Go checks the index again and panics
  outside \<open>0 \<le> idx < len\<close>.
\<close>

definition assign_array_slot :: "ctx \<Rightarrow> nat \<Rightarrow> int64 \<Rightarrow> object \<Rightarrow> state \<Rightarrow> (object \<times> state) res" where
  "assign_array_slot c a idx val s =
     (if sint idx > int (length (arrays s a)) then
        Ok (newError c ''Index imezidi idadi ya elements'' [], s)
      else if sint idx < 0 \<or> sint idx \<ge> int (length (arrays s a)) then
        Panic ''index out of range''
      else Ok (Nil, s\<lparr>arrays := (arrays s)(a := (arrays s a)[nat (sint idx) := val])\<rparr>))"

definition assign_dict_pair :: "ctx \<Rightarrow> nat \<Rightarrow> object \<Rightarrow> object \<Rightarrow> state \<Rightarrow> object \<times> state" where
  "assign_dict_pair c d key val s =
     (case HashKey key of
        Some hashed \<Rightarrow> (Nil, s\<lparr>dicts := (dicts s)(d := (dicts s d)(hashed \<mapsto> (key, val)))\<rparr>)
      | None \<Rightarrow> (newError c ''Hauwezi kufanya opereshen hii na %T'' [ArgObj key], s))"


section \<open>The control evaluator\<close>

text \<open>
  \<^verbatim>\<open>Eval\<close> and the functions it is mutually recursive with. The second argument is
  the fuel: \<open>Eval\<close> hands one unit less to what it calls, and each round of the while
  loop and of the for-in loop uses one unit. The functions that walk a list stand for
  the \<^verbatim>\<open>for ... range\<close> loops of the source, their extra argument for the loop's
  variable (\<^verbatim>\<open>result\<close>).
\<close>

text \<open>
  The termination order of the thirteen functions: the fuel first, then the depth of the
  calls that keep the fuel, then the length of the list being walked.
\<close>

definition eval_order where
  "eval_order =
     case_sum
       (case_sum
         (case_sum (\<lambda>(c, n, node, env, s). (n :: nat, 0 :: nat, 0 :: nat))
           (case_sum (\<lambda>(c, n, statements, env, result, s). (n, 1, length statements))
                     (\<lambda>(c, n, statements, env, result, s). (n, 1, length statements))))
         (case_sum (\<lambda>(c, n, condition, consequence, alternative, env, s). (n, 1, 0))
           (case_sum (\<lambda>(c, n, exps, env, result, s). (n, 1, length exps))
                     (\<lambda>(c, n, fn, args, line, s). (n, 1, 0)))))
       (case_sum
         (case_sum (\<lambda>(c, n, line, pairs, env, acc, s). (n, 1, length pairs))
           (case_sum (\<lambda>(c, n, condition, consequence, env, s). (n, 1, 0))
                     (\<lambda>(c, n, key, val, iterable, block, env, line, s). (n, 2, 0))))
         (case_sum
           (case_sum (\<lambda>(c, n, iterable, key, val, block, env, s). (n, 1, 0))
                     (\<lambda>(c, n, valueN, choices, env, s). (n, 4, 0)))
           (case_sum (\<lambda>(c, n, obj, choices, env, s). (n, 3, length choices))
                     (\<lambda>(c, n, obj, exprs, block, env, s). (n, 2, length exprs)))))"

function Eval :: "ctx \<Rightarrow> nat \<Rightarrow> node \<Rightarrow> env \<Rightarrow> state \<Rightarrow> (object \<times> state) res"
  and evalProgram :: "ctx \<Rightarrow> nat \<Rightarrow> node list \<Rightarrow> env \<Rightarrow> object \<Rightarrow> state \<Rightarrow> (object \<times> state) res"
  and evalBlockStatement :: "ctx \<Rightarrow> nat \<Rightarrow> node list \<Rightarrow> env \<Rightarrow> object \<Rightarrow> state \<Rightarrow> (object \<times> state) res"
  and evalIfExpression ::
    "ctx \<Rightarrow> nat \<Rightarrow> node \<Rightarrow> node list \<Rightarrow> node list option \<Rightarrow> env \<Rightarrow> state \<Rightarrow> (object \<times> state) res"
  and evalExpressions ::
    "ctx \<Rightarrow> nat \<Rightarrow> node list \<Rightarrow> env \<Rightarrow> object list \<Rightarrow> state \<Rightarrow> (object list \<times> state) res"
  and applyFunction :: "ctx \<Rightarrow> nat \<Rightarrow> object \<Rightarrow> object list \<Rightarrow> int \<Rightarrow> state \<Rightarrow> (object \<times> state) res"
  and evalDictLiteral ::
    "ctx \<Rightarrow> nat \<Rightarrow> int \<Rightarrow> (node \<times> node) list \<Rightarrow> env \<Rightarrow> (object \<rightharpoonup> object \<times> object) \<Rightarrow> state
      \<Rightarrow> (object \<times> state) res"
  and evalWhileExpression ::
    "ctx \<Rightarrow> nat \<Rightarrow> node \<Rightarrow> node list \<Rightarrow> env \<Rightarrow> state \<Rightarrow> (object \<times> state) res"
  and evalForInExpression ::
    "ctx \<Rightarrow> nat \<Rightarrow> string \<Rightarrow> string \<Rightarrow> node \<Rightarrow> node list \<Rightarrow> env \<Rightarrow> int \<Rightarrow> state
      \<Rightarrow> (object \<times> state) res"
  and loopIterable ::
    "ctx \<Rightarrow> nat \<Rightarrow> object \<Rightarrow> string \<Rightarrow> string \<Rightarrow> node list \<Rightarrow> env \<Rightarrow> state \<Rightarrow> (object \<times> state) res"
  and evalSwitchStatement ::
    "ctx \<Rightarrow> nat \<Rightarrow> node \<Rightarrow> (bool \<times> node list \<times> node list) list \<Rightarrow> env \<Rightarrow> state
      \<Rightarrow> (object \<times> state) res"
  and switch_choices ::
    "ctx \<Rightarrow> nat \<Rightarrow> object \<Rightarrow> (bool \<times> node list \<times> node list) list \<Rightarrow> env \<Rightarrow> state
      \<Rightarrow> (object option \<times> state) res"
  and switch_exprs ::
    "ctx \<Rightarrow> nat \<Rightarrow> object \<Rightarrow> node list \<Rightarrow> node list \<Rightarrow> env \<Rightarrow> state
      \<Rightarrow> (object option \<times> state) res"
where
  "Eval c 0 node env s = Timeout"
| "Eval c (Suc n) (Program statements) env s = evalProgram c n statements env Nil s"
| "Eval c (Suc n) (ExpressionStatement expression) env s = Eval c n expression env s"
| "Eval c (Suc n) (IntegerLiteral v) env s = Ok (Integer v, s)"
| "Eval c (Suc n) (FloatLiteral v) env s = Ok (Float v, s)"
| "Eval c (Suc n) (BooleanLiteral v) env s = Ok (nativeBoolToBooleanObject v, s)"
| "Eval c (Suc n) (PrefixExpression line operator rightN) env s =
     res_bind (Eval c n rightN env s) (\<lambda>(right, s1).
       if isError right then Ok (right, s1)
       else res_bind (evalPrefixExpression c operator right line) (\<lambda>v. Ok (v, s1)))"
| "Eval c (Suc n) (InfixExpression line operator leftN rightN) env s =
     res_bind (Eval c n leftN env s) (\<lambda>(left, s1).
       if isError left then Ok (left, s1)
       else res_bind (Eval c n rightN env s1) (\<lambda>(right, s2).
         if isError right then Ok (right, s2)
         else evalInfixExpression c operator left right line s2))"
| "Eval c (Suc n) (PostfixExpression line tokenType tokenLiteral operator) env s =
     Ok (evalPostfixExpression c env operator line tokenType tokenLiteral s)"
| "Eval c (Suc n) (BlockStatement statements) env s = evalBlockStatement c n statements env Nil s"
| "Eval c (Suc n) (IfExpression condition consequence alternative) env s =
     evalIfExpression c n condition consequence alternative env s"
| "Eval c (Suc n) (ReturnStatement returnValue) env s =
     res_bind (Eval c n returnValue env s) (\<lambda>(val, s1).
       if isError val then Ok (val, s1)
       else Ok (ReturnValue (next_addr s1) val, s1\<lparr>next_addr := Suc (next_addr s1)\<rparr>))"
| "Eval c (Suc n) (LetStatement name valueN) env s =
     res_bind (Eval c n valueN env s) (\<lambda>(val, s1).
       if isError val then Ok (val, s1)
       else Ok (Nil, Set s1 env name val))"
| "Eval c (Suc n) (Identifier line name) env s = Ok (evalIdentifier c line name env s, s)"
| "Eval c (Suc n) (FunctionLiteral params body) env s =
     Ok (Function (next_addr s) params body env, s\<lparr>next_addr := Suc (next_addr s)\<rparr>)"
| "Eval c (Suc n) (CallExpression line functionN arguments) env s =
     res_bind (Eval c n functionN env s) (\<lambda>(function, s1).
       if isError function then Ok (function, s1)
       else res_bind (evalExpressions c n arguments env [] s1) (\<lambda>(args, s2).
         if length args = 1 \<and> isError (args ! 0) then Ok (args ! 0, s2)
         else applyFunction c n function args line s2))"
| "Eval c (Suc n) (StringLiteral v) env s = Ok (String v, s)"
| "Eval c (Suc n) (ArrayLiteral elementsN) env s =
     res_bind (evalExpressions c n elementsN env [] s) (\<lambda>(elements, s1).
       if length elements = 1 \<and> isError (elements ! 0) then Ok (elements ! 0, s1)
       else Ok (new_Array elements s1))"
| "Eval c (Suc n) (IndexExpression line leftN indexN) env s =
     res_bind (Eval c n leftN env s) (\<lambda>(left, s1).
       if isError left then Ok (left, s1)
       else res_bind (Eval c n indexN env s1) (\<lambda>(index, s2).
         if isError index then Ok (index, s2)
         else res_bind (evalIndexExpression c left index line s2) (\<lambda>v. Ok (v, s2))))"
| "Eval c (Suc n) (DictLiteral line pairs) env s = evalDictLiteral c n line pairs env Map.empty s"
| "Eval c (Suc n) (WhileExpression condition consequence) env s =
     evalWhileExpression c n condition consequence env s"
| "Eval c (Suc n) BreakNode env s = Ok (Break, s)"
| "Eval c (Suc n) ContinueNode env s = Ok (Continue, s)"
| "Eval c (Suc n) (SwitchExpression valueN choices) env s =
     evalSwitchStatement c n valueN choices env s"
| "Eval c (Suc n) NullLiteral env s = Ok (Null, s)"
| "Eval c (Suc n) (ForIn line key value iterableN block) env s =
     evalForInExpression c n key value iterableN block env line s"
| "Eval c (Suc n) (AssignmentExpression line op leftN valueN) env s =
     res_bind (Eval c n leftN env s) (\<lambda>(left, s1).
       if isError left then Ok (left, s1)
       else res_bind (Eval c n valueN env s1) (\<lambda>(value0, s2).
         if isError value0 then Ok (value0, s2)
         else res_bind
           (if length op \<ge> 2 then evalInfixExpression c (butlast op) left value0 line s2
            else Ok (value0, s2)) (\<lambda>(val, s3).
           if length op \<ge> 2 \<and> isError val then Ok (val, s3)
           else (case leftN of
               Identifier l ident \<Rightarrow> Ok (Nil, Set s3 env ident val)
             | IndexExpression l ieLeft ieIndex \<Rightarrow>
                 res_bind (Eval c n ieLeft env s3) (\<lambda>(obj, s4).
                   if isError obj then Ok (obj, s4)
                   else (case obj of
                       Array a \<Rightarrow>
                         res_bind (Eval c n ieIndex env s4) (\<lambda>(index, s5).
                           if isError index then Ok (index, s5)
                           else (case index of
                               Integer idx \<Rightarrow> assign_array_slot c a idx val s5
                             | _ \<Rightarrow> Ok (newError c ''Hauwezi kufanya opereshen hii na %#v''
                                         [ArgObj index], s5)))
                     | Dict d \<Rightarrow>
                         res_bind (Eval c n ieIndex env s4) (\<lambda>(key, s5).
                           if isError key then Ok (key, s5)
                           else Ok (assign_dict_pair c d key val s5))
                     | _ \<Rightarrow> Ok (newError c ''%T haifanyi operation hii'' [ArgObj obj], s4)))
             | _ \<Rightarrow> Ok (newError c ''Tumia neno kama variable, sio %T'' [ArgObj left], s3)))))"
| "Eval c (Suc n) OtherNode env s = Ok (Nil, s)"

| "evalProgram c n [] env result s = Ok (result, s)"
| "evalProgram c n (statement # rest) env result s =
     res_bind (Eval c n statement env s) (\<lambda>(result1, s1).
       case result1 of
         ReturnValue i v \<Rightarrow> Ok (v, s1)
       | Error msg \<Rightarrow> Ok (result1, s1)
       | _ \<Rightarrow> evalProgram c n rest env result1 s1)"

| "evalBlockStatement c n [] env result s = Ok (result, s)"
| "evalBlockStatement c n (statement # rest) env result s =
     res_bind (Eval c n statement env s) (\<lambda>(result1, s1).
       if result1 \<noteq> Nil \<and>
          (Type result1 = Some RETURN_VALUE_OBJ \<or> Type result1 = Some ERROR_OBJ \<or>
           Type result1 = Some CONTINUE_OBJ \<or> Type result1 = Some BREAK_OBJ)
       then Ok (result1, s1)
       else evalBlockStatement c n rest env result1 s1)"

| "evalIfExpression c n conditionN consequence alternative env s =
     res_bind (Eval c n conditionN env s) (\<lambda>(condition, s1).
       if isError condition then Ok (condition, s1)
       else if isTruthy condition then Eval c n (BlockStatement consequence) env s1
       else (case alternative of
           Some alt \<Rightarrow> Eval c n (BlockStatement alt) env s1
         | None \<Rightarrow> Ok (Null, s1)))"

| "evalExpressions c n [] env result s = Ok (result, s)"
| "evalExpressions c n (e # exps) env result s =
     res_bind (Eval c n e env s) (\<lambda>(evaluated, s1).
       if isError evaluated then Ok ([evaluated], s1)
       else evalExpressions c n exps env (result @ [evaluated]) s1)"

| "applyFunction c n fn args line s =
     (case fn of
        Function i params body fnEnv \<Rightarrow>
          (let (extendedEnv, s1) = extendedFunctionEnv params fnEnv args s in
           res_bind (Eval c n (BlockStatement body) extendedEnv s1) (\<lambda>(evaluated, s2).
             Ok (unwrapReturnValue evaluated, s2)))
      | Builtin name \<Rightarrow>
          res_bind (builtin_fn c name args s) (\<lambda>(result, s1).
            if result \<noteq> Nil then Ok (result, s1) else Ok (Null, s1))
      | Nil \<Rightarrow> nil_deref
      | _ \<Rightarrow> Ok (newError c ''Mstari %d: Hii sio function: %s'' [ArgInt line, ArgType (Type fn)], s))"

| "evalDictLiteral c n line [] env pairs s = Ok (new_Dict pairs s)"
| "evalDictLiteral c n line ((keyNode, valueNode) # rest) env pairs s =
     res_bind (Eval c n keyNode env s) (\<lambda>(key, s1).
       if isError key then Ok (key, s1)
       else (case HashKey key of
           None \<Rightarrow>
             (if key = Nil then nil_deref
              else Ok (newError c ''Mstari %d: Hashing imeshindikana: %s''
                         [ArgInt line, ArgType (Type key)], s1))
         | Some hashed \<Rightarrow>
             res_bind (Eval c n valueNode env s1) (\<lambda>(val, s2).
               if isError val then Ok (val, s2)
               else evalDictLiteral c n line rest env (pairs(hashed \<mapsto> (key, val))) s2)))"

| "evalWhileExpression c 0 conditionN consequence env s = Timeout"
| "evalWhileExpression c (Suc n) conditionN consequence env s =
     res_bind (Eval c n conditionN env s) (\<lambda>(condition, s1).
       if isError condition then Ok (condition, s1)
       else if isTruthy condition then
         res_bind (Eval c n (BlockStatement consequence) env s1) (\<lambda>(evaluated, s2).
           if isError evaluated then Ok (evaluated, s2)
           else if evaluated \<noteq> Nil \<and> Type evaluated = Some BREAK_OBJ then Ok (evaluated, s2)
           else res_bind (evalWhileExpression c n conditionN consequence env s2) (\<lambda>(ignored, s3).
             Ok (Null, s3)))
       else Ok (Null, s1))"

| "evalForInExpression c n key value iterableN block env line s =
     res_bind (Eval c n iterableN env s) (\<lambda>(iterable, s1).
       let existingKeyIdentifier = Get s1 env key;
           existingValueIdentifier = Get s1 env value;
           restore = (\<lambda>st.
             let st1 = (case existingKeyIdentifier of Some v \<Rightarrow> Set st env key v | None \<Rightarrow> st)
             in (case existingValueIdentifier of Some v \<Rightarrow> Set st1 env value v | None \<Rightarrow> st1))
       in if iterable = Nil then nil_deref
          else if is_iterable c iterable then
            res_bind (loopIterable c n iterable key value block env s1) (\<lambda>(result, s2).
              Ok (result, restore (iter_reset c iterable s2)))
          else Ok (newError c ''Mstari %d: Huwezi kufanya operesheni hii na %s''
                     [ArgInt line, ArgType (Type iterable)], restore s1))"

| "loopIterable c 0 iterable key value block env s = Timeout"
| "loopIterable c (Suc n) iterable key value block env s =
     (let ((k, v), s1) = iter_next c iterable s in
      if k \<noteq> Nil \<and> v \<noteq> Nil then
        (let s2 = Set (Set s1 env key k) env value v in
         res_bind (Eval c n (BlockStatement block) env s2) (\<lambda>(res, s3).
           if isError res then Ok (res, s3)
           else if res \<noteq> Nil \<and> Type res = Some BREAK_OBJ then Ok (Null, s3)
           else if res \<noteq> Nil \<and> Type res = Some CONTINUE_OBJ then
             loopIterable c n iterable key value block env s3
           else if res \<noteq> Nil \<and> Type res = Some RETURN_VALUE_OBJ then Ok (res, s3)
           else loopIterable c n iterable key value block env s3))
      else Ok (Null, s1))"

| "evalSwitchStatement c n valueN choices env s =
     res_bind (Eval c n valueN env s) (\<lambda>(obj, s1).
       res_bind (switch_choices c n obj choices env s1) (\<lambda>(found, s2).
         case found of
           Some blockOut \<Rightarrow> Ok (blockOut, s2)
         | None \<Rightarrow>
             (case List.find (\<lambda>opt. fst opt) choices of
                Some opt \<Rightarrow> evalBlockStatement c n (snd (snd opt)) env Nil s2
              | None \<Rightarrow> Ok (Nil, s2))))"

| "switch_choices c n obj [] env s = Ok (None, s)"
| "switch_choices c n obj (opt # rest) env s =
     (if fst opt then switch_choices c n obj rest env s
      else res_bind (switch_exprs c n obj (fst (snd opt)) (snd (snd opt)) env s) (\<lambda>(found, s1).
        case found of
          Some blockOut \<Rightarrow> Ok (Some blockOut, s1)
        | None \<Rightarrow> switch_choices c n obj rest env s1))"

| "switch_exprs c n obj [] block env s = Ok (None, s)"
| "switch_exprs c n obj (val # rest) block env s =
     res_bind (Eval c n val env s) (\<lambda>(out, s1).
       if obj = Nil \<or> out = Nil then nil_deref
       else if Type obj = Type out \<and> inspect c s1 obj = inspect c s1 out then
         res_bind (evalBlockStatement c n block env Nil s1) (\<lambda>(blockOut, s2).
           Ok (Some blockOut, s2))
       else switch_exprs c n obj rest block env s1)"

  by pat_completeness auto
termination
proof (relation "inv_image (less_than <*lex*> less_than <*lex*> less_than) eval_order")
  show "wf (inv_image (less_than <*lex*> less_than <*lex*> less_than) eval_order)"
    by (intro wf_inv_image wf_lex_prod wf_less_than)
qed (simp_all add: eval_order_def)


section \<open>A context and a state for running programs\<close>

text \<open>
  The theorems below hold for every context. To run a program one is needed: this one has
  an empty builtin registry and leaves IEEE-754 arithmetic open, so it runs the programs
  that use neither. Its \<open>sprintf\<close> returns the format without filling in the verbs.
\<close>

fun decimal :: "nat \<Rightarrow> string" where
  "decimal n = (if n < 10 then [char_of (48 + n)] else decimal (n div 10) @ [char_of (48 + n mod 10)])"

declare decimal.simps [simp del]

text \<open>
  The spec names \<^verbatim>\<open>Inspect\<close> "textual inspection" and fixes no text: here an integer
  is its decimal numeral, a string its content, and a boolean and null their keywords.
\<close>

definition sample_inspect :: "state \<Rightarrow> object \<Rightarrow> string" where
  "sample_inspect s obj =
     (case obj of
        Integer v \<Rightarrow> (if sint v < 0 then ''-'' @ decimal (nat (- sint v)) else decimal (nat (sint v)))
      | String v \<Rightarrow> v
      | Boolean b \<Rightarrow> (if b then ''kweli'' else ''sikweli'')
      | Null \<Rightarrow> ''tupu''
      | _ \<Rightarrow> [])"

text \<open>
  Modelled from the spec: the Iterable capability, "Array (key = integer index, value =
  element)" and "String (key = integer index, value = one-character string)";
  \<^verbatim>\<open>next()\<close> gives the pair at the offset and moves it, or (nil, nil) at the end, and
  \<^verbatim>\<open>reset()\<close> returns "the iterable to its initial state". A dict's order is
  unspecified, and this context leaves dicts out.
\<close>

definition sample_is_iterable :: "object \<Rightarrow> bool" where
  "sample_is_iterable obj = (case obj of Array a \<Rightarrow> True | String v \<Rightarrow> True | _ \<Rightarrow> False)"

definition sample_next :: "object \<Rightarrow> state \<Rightarrow> (object \<times> object) \<times> state" where
  "sample_next obj s =
     (let off = offsets s obj; moved = s\<lparr>offsets := (offsets s)(obj := Suc off)\<rparr> in
      case obj of
        Array a \<Rightarrow>
          (if off < length (arrays s a) then ((Integer (of_nat off), arrays s a ! off), moved)
           else ((Nil, Nil), s))
      | String v \<Rightarrow>
          (if off < length v then ((Integer (of_nat off), String [v ! off]), moved)
           else ((Nil, Nil), s))
      | _ \<Rightarrow> ((Nil, Nil), s))"

definition sample_reset :: "object \<Rightarrow> state \<Rightarrow> state" where
  "sample_reset obj s = s\<lparr>offsets := (offsets s)(obj := 0)\<rparr>"

definition sample_ctx :: ctx where
  "sample_ctx =
     \<lparr> builtins = (\<lambda>name. False),
       builtin_fn = (\<lambda>name args s. Ok (Nil, s)),
       inspect = sample_inspect,
       sprintf = (\<lambda>format a. format),
       is_iterable = sample_is_iterable,
       iter_next = sample_next,
       iter_reset = sample_reset,
       f64_of_int = undefined,
       f64_to_int = undefined,
       f64_neg = undefined,
       f64_add = undefined,
       f64_sub = undefined,
       f64_mul = undefined,
       f64_div = undefined,
       f64_pow = undefined,
       f64_lt = undefined,
       f64_le = undefined,
       f64_eq = undefined,
       f64_mod1_is_zero = undefined \<rparr>"

text \<open>The root environment \<^verbatim>\<open>object.NewEnvironment()\<close> and the state that holds only it.\<close>

definition root_env :: env where
  "root_env = Env 0 None"

definition init_state :: state where
  "init_state =
     \<lparr> stores = (\<lambda>a. Map.empty), arrays = (\<lambda>a. []), dicts = (\<lambda>a. Map.empty),
       offsets = (\<lambda>obj. 0), next_addr = 1 \<rparr>"


section \<open>Notions used by the theorems\<close>

text \<open>The object a call returned, without the state.\<close>

definition value_of :: "('a \<times> state) res \<Rightarrow> 'a res" where
  "value_of r = (case r of Ok (v, s) \<Rightarrow> Ok v | Panic msg \<Rightarrow> Panic msg | Timeout \<Rightarrow> Timeout)"

text \<open>
  Every store of the chain of an environment lies below \<open>k\<close>. Addresses are handed out
  in increasing order, so the environments of a state lie below its \<open>next_addr\<close>.
\<close>

fun env_below :: "nat \<Rightarrow> env \<Rightarrow> bool" where
  "env_below k (Env a outer) = (a < k \<and> (case outer of None \<Rightarrow> True | Some e \<Rightarrow> env_below k e))"

subsection \<open>Programs that the theorems run\<close>

text \<open>
  \<^verbatim>\<open>wakati (c) { c = sikweli; rudisha 7 }\<close>, run where \<open>c\<close> is TRUE.
\<close>

definition while_return_body :: "node list" where
  "while_return_body =
     [ExpressionStatement (AssignmentExpression 1 ''='' (Identifier 1 ''c'') (BooleanLiteral False)),
      ReturnStatement (IntegerLiteral 7)]"

definition while_return_state :: state where
  "while_return_state = Set init_state root_env ''c'' (Boolean True)"

text \<open>\<^verbatim>\<open>fanya a = [1]; a[1] = 5\<close>\<close>

definition write_at_length :: node where
  "write_at_length =
     Program
       [LetStatement ''a'' (ArrayLiteral [IntegerLiteral 1]),
        ExpressionStatement
          (AssignmentExpression 2 ''=''
             (IndexExpression 2 (Identifier 2 ''a'') (IntegerLiteral 1)) (IntegerLiteral 5))]"


text \<open>\<^verbatim>\<open>kwa i, v ktk [10, 20] { i = 0 }\<close>, run where \<open>i\<close> is the string "before".\<close>

definition for_in_demo_state :: state where
  "for_in_demo_state = Set init_state root_env ''i'' (String ''before'')"

definition for_in_demo_block :: "node list" where
  "for_in_demo_block =
     [ExpressionStatement (AssignmentExpression 1 ''='' (Identifier 1 ''i'') (IntegerLiteral 0))]"

text \<open>
  \<^verbatim>\<open>fanya x = 1; fanya f = unda() { x }; x = 2; f()\<close>, and the states at the
  definition of \<open>f\<close> and at its call.
\<close>

definition closure_body :: "node list" where
  "closure_body = [ExpressionStatement (Identifier 2 ''x'')]"

definition closure_program :: node where
  "closure_program =
     Program
       [LetStatement ''x'' (IntegerLiteral 1),
        LetStatement ''f'' (FunctionLiteral [] closure_body),
        ExpressionStatement (AssignmentExpression 3 ''='' (Identifier 3 ''x'') (IntegerLiteral 2)),
        ExpressionStatement (CallExpression 4 (Identifier 4 ''f'') [])]"

definition closure_def_state :: state where
  "closure_def_state = Set init_state root_env ''x'' (Integer 1)"

definition closure_call_state :: state where
  "closure_call_state =
     Set (Set (closure_def_state\<lparr>next_addr := 2\<rparr>) root_env ''f'' (Function 1 [] closure_body root_env))
       root_env ''x'' (Integer 2)"

subsection \<open>Notions for the statements on results and errors\<close>



subsection \<open>The switch expression as the specification words it\<close>





text \<open>Evaluating the block that was chosen, if one was.\<close>

definition run_chosen ::
  "ctx \<Rightarrow> nat \<Rightarrow> env \<Rightarrow> (node list option \<times> state) res \<Rightarrow> (object option \<times> state) res" where
  "run_chosen c n env m =
     res_bind m (\<lambda>(chosen, s1).
       case chosen of
         Some block \<Rightarrow>
           res_bind (evalBlockStatement c n block env Nil s1) (\<lambda>(blockOut, s2). Ok (Some blockOut, s2))
       | None \<Rightarrow> Ok (None, s1))"

subsection \<open>More programs and states\<close>





text \<open>A call that ran out of fuel, or that returned what the other call returned.\<close>

definition res_le :: "'a res \<Rightarrow> 'a res \<Rightarrow> bool" where
  "res_le a b = (a = Timeout \<or> a = b)"

section \<open>Running the evaluator\<close>

lemma res_bind_Ok [simp]: "res_bind (Ok x) f = f x"
  by (simp add: res_bind_def)

lemma res_bind_Panic [simp]: "res_bind (Panic msg) f = Panic msg"
  by (simp add: res_bind_def)

lemma res_bind_Timeout [simp]: "res_bind Timeout f = Timeout"
  by (simp add: res_bind_def)

text \<open>The continuation of a call is looked at once the call has returned.\<close>

lemma res_bind_weak_cong [cong]: "m = m' \<Longrightarrow> res_bind m f = res_bind m' f"
  by simp

lemma res_bind_eq_Ok:
  "res_bind m f = Ok y \<longleftrightarrow> (\<exists>x. m = Ok x \<and> f x = Ok y)"
  by (cases m) simp_all

lemma Eval_numeral:
  "Eval c (numeral k) node env s = Eval c (Suc (pred_numeral k)) node env s"
  by (simp only: numeral_eq_Suc)

lemma evalWhileExpression_numeral:
  "evalWhileExpression c (numeral k) conditionN consequence env s =
   evalWhileExpression c (Suc (pred_numeral k)) conditionN consequence env s"
  by (simp only: numeral_eq_Suc)

lemma loopIterable_numeral:
  "loopIterable c (numeral k) iterable key val block env s =
   loopIterable c (Suc (pred_numeral k)) iterable key val block env s"
  by (simp only: numeral_eq_Suc)

lemmas run_simps =
  Eval_numeral evalWhileExpression_numeral loopIterable_numeral
  sample_ctx_def root_env_def init_state_def isError_def isTruthy_def evalIdentifier_def
  nativeBoolToBooleanObject_def unwrapReturnValue_def new_Array_def newError_def

section \<open>More fuel does not change a result\<close>

text \<open>
  A call that returns or panics with some fuel does the same with any larger fuel: the
  fuel only bounds how long the model runs, and a result it gives is the result of the
  program.
\<close>

lemma res_le_refl [simp, intro!]: "res_le a a"
  by (simp add: res_le_def)

lemma res_le_Timeout [simp, intro!]: "res_le Timeout b"
  by (simp add: res_le_def)

lemma res_le_bind:
  assumes "res_le m m'" and "\<And>x. res_le (f x) (g x)"
  shows "res_le (res_bind m f) (res_bind m' g)"
proof (cases m)
  case (Ok x)
  with assms(1) have "m' = Ok x" by (simp add: res_le_def)
  with Ok assms(2) show ?thesis by simp
next
  case (Panic msg)
  with assms(1) have "m' = Panic msg" by (simp add: res_le_def)
  with Panic show ?thesis by simp
next
  case Timeout
  then show ?thesis by simp
qed

lemma res_le_if:
  "(b \<Longrightarrow> res_le x x') \<Longrightarrow> (\<not> b \<Longrightarrow> res_le y y') \<Longrightarrow> res_le (if b then x else y) (if b then x' else y')"
  by simp

lemma res_le_prod:
  "(\<And>a b. res_le (f a b) (g a b)) \<Longrightarrow> res_le (case p of (a, b) \<Rightarrow> f a b) (case p of (a, b) \<Rightarrow> g a b)"
  by (cases p) simp

lemma res_le_option:
  "res_le x x' \<Longrightarrow> (\<And>a. res_le (f a) (g a)) \<Longrightarrow>
   res_le (case p of None \<Rightarrow> x | Some a \<Rightarrow> f a) (case p of None \<Rightarrow> x' | Some a \<Rightarrow> g a)"
  by (cases p) simp_all

lemmas res_le_intros = res_le_bind res_le_if res_le_prod res_le_option

lemma evalProgram_mono:
  assumes ev: "\<And>node env s. res_le (Eval c n node env s) (Eval c m node env s)"
  shows "res_le (evalProgram c n stmts env r s) (evalProgram c m stmts env r s)"
proof (induction stmts arbitrary: r s)
  case Nil
  show ?case by simp
next
  case (Cons st stmts)
  show ?case
    by (simp, intro res_le_bind ev res_le_prod) (simp add: Cons split: object.split)
qed

lemma evalBlockStatement_mono:
  assumes ev: "\<And>node env s. res_le (Eval c n node env s) (Eval c m node env s)"
  shows "res_le (evalBlockStatement c n stmts env r s) (evalBlockStatement c m stmts env r s)"
proof (induction stmts arbitrary: r s)
  case Nil
  show ?case by simp
next
  case (Cons st stmts)
  show ?case
    by (simp, intro res_le_intros ev Cons res_le_refl)
qed

lemma evalExpressions_mono:
  assumes ev: "\<And>node env s. res_le (Eval c n node env s) (Eval c m node env s)"
  shows "res_le (evalExpressions c n exps env acc s) (evalExpressions c m exps env acc s)"
proof (induction exps arbitrary: acc s)
  case Nil
  show ?case by simp
next
  case (Cons e exps)
  show ?case
    by (simp, intro res_le_intros ev Cons res_le_refl)
qed

lemma evalDictLiteral_mono:
  assumes ev: "\<And>node env s. res_le (Eval c n node env s) (Eval c m node env s)"
  shows "res_le (evalDictLiteral c n line pairs env acc s) (evalDictLiteral c m line pairs env acc s)"
proof (induction pairs arbitrary: acc s)
  case Nil
  show ?case by simp
next
  case (Cons p pairs)
  obtain k v where p: "p = (k, v)" by (cases p)
  show ?case
    unfolding p
    by (simp, intro res_le_intros ev Cons res_le_refl)
qed

lemma evalIfExpression_mono:
  assumes ev: "\<And>node env s. res_le (Eval c n node env s) (Eval c m node env s)"
  shows "res_le (evalIfExpression c n cond cons alt env s) (evalIfExpression c m cond cons alt env s)"
  by (simp, intro res_le_intros ev res_le_refl)

lemma applyFunction_mono:
  assumes ev: "\<And>node env s. res_le (Eval c n node env s) (Eval c m node env s)"
  shows "res_le (applyFunction c n fn args line s) (applyFunction c m fn args line s)"
  by (cases fn) (simp_all add: split_def Let_def, intro res_le_intros ev res_le_refl)

lemma switch_exprs_mono:
  assumes ev: "\<And>node env s. res_le (Eval c n node env s) (Eval c m node env s)"
  shows "res_le (switch_exprs c n obj exprs block env s) (switch_exprs c m obj exprs block env s)"
proof (induction exprs arbitrary: s)
  case Nil
  show ?case by simp
next
  case (Cons e exprs)
  show ?case
    by (simp, intro res_le_intros ev Cons res_le_refl evalBlockStatement_mono)
qed

lemma switch_choices_mono:
  assumes ev: "\<And>node env s. res_le (Eval c n node env s) (Eval c m node env s)"
  shows "res_le (switch_choices c n obj choices env s) (switch_choices c m obj choices env s)"
proof (induction choices arbitrary: s)
  case Nil
  show ?case by simp
next
  case (Cons opt choices)
  show ?case
    by (simp, intro res_le_intros ev Cons res_le_refl switch_exprs_mono conjI impI)
qed

lemma evalSwitchStatement_mono:
  assumes ev: "\<And>node env s. res_le (Eval c n node env s) (Eval c m node env s)"
  shows "res_le (evalSwitchStatement c n valueN choices env s) (evalSwitchStatement c m valueN choices env s)"
  by (simp, intro res_le_intros ev res_le_refl switch_choices_mono evalBlockStatement_mono)


lemma evalForInExpression_mono:
  assumes ev: "\<And>node env s. res_le (Eval c n node env s) (Eval c m node env s)"
      and li: "\<And>it key val block env s.
                 res_le (loopIterable c n it key val block env s) (loopIterable c m it key val block env s)"
  shows "res_le (evalForInExpression c n key val iterableN block env line s)
           (evalForInExpression c m key val iterableN block env line s)"
  by (simp, intro res_le_bind ev res_le_prod, simp add: Let_def,
      intro res_le_intros li res_le_refl conjI impI)

lemma assignment_store_mono:
  assumes ev: "\<And>node env s. res_le (Eval c n node env s) (Eval c m node env s)"
  shows "res_le
    (case leftN of
               Identifier l ident \<Rightarrow> Ok (Nil, Set s3 env ident val)
             | IndexExpression l ieLeft ieIndex \<Rightarrow>
                 res_bind (Eval c n ieLeft env s3) (\<lambda>(obj, s4).
                   if isError obj then Ok (obj, s4)
                   else (case obj of
                       Array a \<Rightarrow>
                         res_bind (Eval c n ieIndex env s4) (\<lambda>(index, s5).
                           if isError index then Ok (index, s5)
                           else (case index of
                               Integer idx \<Rightarrow> assign_array_slot c a idx val s5
                             | _ \<Rightarrow> Ok (newError c ''Hauwezi kufanya opereshen hii na %#v''
                                         [ArgObj index], s5)))
                     | Dict d \<Rightarrow>
                         res_bind (Eval c n ieIndex env s4) (\<lambda>(key, s5).
                           if isError key then Ok (key, s5)
                           else Ok (assign_dict_pair c d key val s5))
                     | _ \<Rightarrow> Ok (newError c ''%T haifanyi operation hii'' [ArgObj obj], s4)))
             | _ \<Rightarrow> Ok (newError c ''Tumia neno kama variable, sio %T'' [ArgObj left], s3))
    (case leftN of
               Identifier l ident \<Rightarrow> Ok (Nil, Set s3 env ident val)
             | IndexExpression l ieLeft ieIndex \<Rightarrow>
                 res_bind (Eval c m ieLeft env s3) (\<lambda>(obj, s4).
                   if isError obj then Ok (obj, s4)
                   else (case obj of
                       Array a \<Rightarrow>
                         res_bind (Eval c m ieIndex env s4) (\<lambda>(index, s5).
                           if isError index then Ok (index, s5)
                           else (case index of
                               Integer idx \<Rightarrow> assign_array_slot c a idx val s5
                             | _ \<Rightarrow> Ok (newError c ''Hauwezi kufanya opereshen hii na %#v''
                                         [ArgObj index], s5)))
                     | Dict d \<Rightarrow>
                         res_bind (Eval c m ieIndex env s4) (\<lambda>(key, s5).
                           if isError key then Ok (key, s5)
                           else Ok (assign_dict_pair c d key val s5))
                     | _ \<Rightarrow> Ok (newError c ''%T haifanyi operation hii'' [ArgObj obj], s4)))
             | _ \<Rightarrow> Ok (newError c ''Tumia neno kama variable, sio %T'' [ArgObj left], s3))"
proof (cases leftN)
  case (IndexExpression l ieLeft ieIndex)
  have "res_le
     (case obj of
                       Array a \<Rightarrow>
                         res_bind (Eval c n ieIndex env s4) (\<lambda>(index, s5).
                           if isError index then Ok (index, s5)
                           else (case index of
                               Integer idx \<Rightarrow> assign_array_slot c a idx val s5
                             | _ \<Rightarrow> Ok (newError c ''Hauwezi kufanya opereshen hii na %#v''
                                         [ArgObj index], s5)))
                     | Dict d \<Rightarrow>
                         res_bind (Eval c n ieIndex env s4) (\<lambda>(key, s5).
                           if isError key then Ok (key, s5)
                           else Ok (assign_dict_pair c d key val s5))
                     | _ \<Rightarrow> Ok (newError c ''%T haifanyi operation hii'' [ArgObj obj], s4))
     (case obj of
                       Array a \<Rightarrow>
                         res_bind (Eval c m ieIndex env s4) (\<lambda>(index, s5).
                           if isError index then Ok (index, s5)
                           else (case index of
                               Integer idx \<Rightarrow> assign_array_slot c a idx val s5
                             | _ \<Rightarrow> Ok (newError c ''Hauwezi kufanya opereshen hii na %#v''
                                         [ArgObj index], s5)))
                     | Dict d \<Rightarrow>
                         res_bind (Eval c m ieIndex env s4) (\<lambda>(key, s5).
                           if isError key then Ok (key, s5)
                           else Ok (assign_dict_pair c d key val s5))
                     | _ \<Rightarrow> Ok (newError c ''%T haifanyi operation hii'' [ArgObj obj], s4))"
    for obj s4
    by (cases obj) (simp_all, (intro res_le_intros ev res_le_refl)+)
  with IndexExpression show ?thesis
    by (simp, intro res_le_intros ev res_le_refl)
qed simp_all

lemma Eval_Suc_mono:
  assumes ev: "\<And>node env s. res_le (Eval c n node env s) (Eval c m node env s)"
      and wh: "\<And>cond cons env s.
                 res_le (evalWhileExpression c n cond cons env s) (evalWhileExpression c m cond cons env s)"
      and li: "\<And>it key val block env s.
                 res_le (loopIterable c n it key val block env s) (loopIterable c m it key val block env s)"
  shows "res_le (Eval c (Suc n) node env s) (Eval c (Suc m) node env s)"
proof (cases node)
  case (AssignmentExpression line op leftN valueN)
  show ?thesis
    unfolding AssignmentExpression
    by (simp, intro res_le_intros ev res_le_refl assignment_store_mono)
qed (simp_all del: evalForInExpression.simps evalIfExpression.simps applyFunction.simps
      evalSwitchStatement.simps, (intro res_le_intros ev wh res_le_refl evalProgram_mono evalBlockStatement_mono
      evalIfExpression_mono evalExpressions_mono applyFunction_mono evalDictLiteral_mono
      evalForInExpression_mono li evalSwitchStatement_mono)+)


lemma fuel_Suc:
  "(\<forall>node env s. res_le (Eval c n node env s) (Eval c (Suc n) node env s)) \<and>
   (\<forall>cond cons env s.
      res_le (evalWhileExpression c n cond cons env s) (evalWhileExpression c (Suc n) cond cons env s)) \<and>
   (\<forall>it key val block env s.
      res_le (loopIterable c n it key val block env s) (loopIterable c (Suc n) it key val block env s))"
proof (induction n)
  case 0
  show ?case by simp
next
  case (Suc n)
  then have ev: "\<And>node env s. res_le (Eval c n node env s) (Eval c (Suc n) node env s)"
    and wh: "\<And>cond cons env s.
      res_le (evalWhileExpression c n cond cons env s) (evalWhileExpression c (Suc n) cond cons env s)"
    and li: "\<And>it key val block env s.
      res_le (loopIterable c n it key val block env s) (loopIterable c (Suc n) it key val block env s)"
    by blast+
  have "res_le (Eval c (Suc n) node env s) (Eval c (Suc (Suc n)) node env s)" for node env s
    by (rule Eval_Suc_mono [OF ev wh li])
  moreover
  have "res_le (evalWhileExpression c (Suc n) cond cons env s)
          (evalWhileExpression c (Suc (Suc n)) cond cons env s)" for cond cons env s
    by (simp del: Eval.simps, (intro res_le_intros ev wh res_le_refl)+)
  moreover
  have "res_le (loopIterable c (Suc n) it key val block env s)
          (loopIterable c (Suc (Suc n)) it key val block env s)" for it key val block env s
    by (simp add: Let_def split_def del: Eval.simps,
        (intro res_le_intros ev li res_le_refl conjI impI)+)
  ultimately show ?case by blast
qed

lemma Eval_more_fuel:
  assumes "Eval c n node env s \<noteq> Timeout" and "n \<le> m"
  shows "Eval c m node env s = Eval c n node env s"
  using assms(2,1)
proof (induction m rule: dec_induct)
  case base
  show ?case by (rule refl)
next
  case (step k)
  from fuel_Suc [of c k] have "res_le (Eval c k node env s) (Eval c (Suc k) node env s)"
    by blast
  with step show ?case by (simp add: res_le_def del: Eval.simps)
qed


section \<open>String repetition\<close>

text \<open>
  C4 (the claim: \<open>s * n\<close> repeats the string \<open>n\<close> times, every \<open>n < 0\<close> is treated as
  0, and the expression never fails). The evaluator hands \<open>n\<close> to \<^verbatim>\<open>strings.Repeat\<close>
  unchecked: for \<open>"ab" * -1\<close>, in either operand order, the call panics and no value is
  returned.
\<close>

theorem string_times_negative_panics:
  "evalInfixExpression c ''*'' (String ''ab'') (Integer (- 1)) line s =
     Panic ''strings: negative Repeat count'' \<and>
   evalInfixExpression c ''*'' (Integer (- 1)) (String ''ab'') line s =
     Panic ''strings: negative Repeat count''"
  by (simp add: evalInfixExpression_def Repeat_def)

section \<open>Array replication\<close>




section \<open>The while loop\<close>

text \<open>
  C1 (the claim: a BREAK, an Error or a ReturnValue produced by the body leaves the while
  expression as its result). The recursive call in \<^verbatim>\<open>evalWhileExpression\<close> is made
  for its effect only and the body's result is tested for Error and BREAK alone: here the
  body evaluates to the ReturnValue of 7, the loop goes on, finds the condition false and
  evaluates to NULL, whatever the fuel above the few units the run needs.
\<close>

theorem while_loses_return_value:
  "value_of (Eval sample_ctx (6 + k) (BlockStatement while_return_body) root_env while_return_state)
     = Ok (ReturnValue 1 (Integer 7)) \<and>
   value_of (Eval sample_ctx (8 + k) (WhileExpression (Identifier 1 ''c'') while_return_body) root_env
       while_return_state)
     = Ok Null"
proof -
  have "\<exists>s. Eval sample_ctx 6 (BlockStatement while_return_body) root_env while_return_state
          = Ok (ReturnValue 1 (Integer 7), s)"
    by (simp add: while_return_body_def while_return_state_def run_simps del: Suc_numeral)
  then obtain s where body:
    "Eval sample_ctx 6 (BlockStatement while_return_body) root_env while_return_state
       = Ok (ReturnValue 1 (Integer 7), s)" ..
  have "\<exists>s. Eval sample_ctx 8 (WhileExpression (Identifier 1 ''c'') while_return_body) root_env
          while_return_state = Ok (Null, s)"
    by (simp add: while_return_body_def while_return_state_def run_simps del: Suc_numeral)
  then obtain s' where loop:
    "Eval sample_ctx 8 (WhileExpression (Identifier 1 ''c'') while_return_body) root_env
       while_return_state = Ok (Null, s')" ..
  from body have "Eval sample_ctx (6 + k) (BlockStatement while_return_body) root_env while_return_state
      = Ok (ReturnValue 1 (Integer 7), s)"
    by (subst Eval_more_fuel [where n = 6]) simp_all
  moreover
  from loop have "Eval sample_ctx (8 + k) (WhileExpression (Identifier 1 ''c'') while_return_body)
      root_env while_return_state = Ok (Null, s')"
    by (subst Eval_more_fuel [where n = 8]) simp_all
  ultimately show ?thesis by (simp add: value_of_def)
qed

section \<open>Assignment to an array slot\<close>

text \<open>
  C3 (the claim: writing at the index equal to the length returns the error "Index imezidi
  idadi ya elements"). The evaluator's test is \<^verbatim>\<open>idx > len\<close>, so the index 1 of a
  one-element array reaches the slot write, which panics (with any fuel from 8 on).
\<close>

theorem array_write_at_length_panics:
  "value_of (Eval sample_ctx (8 + k) write_at_length root_env init_state) = Panic ''index out of range''"
proof -
  have "Eval sample_ctx 8 write_at_length root_env init_state = Panic ''index out of range''"
    by (simp add: write_at_length_def run_simps evalIndexExpression_def
        evalArrayIndexExpression_def assign_array_slot_def del: Suc_numeral)
  then have "Eval sample_ctx (8 + k) write_at_length root_env init_state = Panic ''index out of range''"
    by (subst Eval_more_fuel [where n = 8]) simp_all
  then show ?thesis by (simp add: value_of_def)
qed

section \<open>Environments: for-in and closures\<close>

lemma Get_Set_same: "Get (Set s env name v) env name = Some v"
  by (cases env) simp

lemma Get_Set_other: "name' \<noteq> name \<Longrightarrow> Get (Set s env name v) env' name' = Get s env' name'"
proof (induction s env' name' rule: Get.induct)
  case (1 s a outer name')
  then show ?case by (cases env) (auto split: option.splits)
qed

text \<open>
  C9: a for-in loop over the names \<open>key\<close> and \<open>val\<close>. The loop starts when the iterable
  has been evaluated (state \<open>s1\<close>); that is where the evaluator saves the bindings. If the
  name \<open>x\<close>, one of the two, is bound to \<open>v\<close> there and the loop exits in state \<open>s'\<close>
  with whatever result \<open>r\<close> (NULL at the end of the iteration or after a break, a
  ReturnValue, an Error of the body, the error for a value that is not iterable), then
  \<open>x\<close> is bound to \<open>v\<close> again.
\<close>

theorem for_in_restores_bindings:
  assumes "Eval c n iterableN env s = Ok (iterable, s1)"
      and "evalForInExpression c n key val iterableN block env line s = Ok (r, s')"
      and "x = key \<or> x = val"
      and "Get s1 env x = Some v"
    shows "Get s' env x = Some v"
proof -
  define restore where "restore = (\<lambda>st.
     let st1 = (case Get s1 env key of Some v \<Rightarrow> Set st env key v | None \<Rightarrow> st)
     in (case Get s1 env val of Some v \<Rightarrow> Set st1 env val v | None \<Rightarrow> st1))"
  have restored: "Get (restore st) env x = Some v" for st
    using assms(3,4)
    by (cases "key = val")
      (auto simp: restore_def Get_Set_same Get_Set_other split: option.splits)
  from assms(1,2) obtain st where "s' = restore st"
    by (auto simp: restore_def Let_def res_bind_eq_Ok nil_deref_def split: if_splits)
  with restored show ?thesis by simp
qed

theorem for_in_restores_bindings_witness:
  "\<exists>iterable s1 r s'.
     Eval sample_ctx 6 (ArrayLiteral [IntegerLiteral 10, IntegerLiteral 20]) root_env for_in_demo_state
       = Ok (iterable, s1) \<and>
     evalForInExpression sample_ctx 6 ''i'' ''v'' (ArrayLiteral [IntegerLiteral 10, IntegerLiteral 20])
       for_in_demo_block root_env 1 for_in_demo_state = Ok (r, s') \<and>
     Get s1 root_env ''i'' = Some (String ''before'') \<and>
     Get s' root_env ''i'' = Some (String ''before'')"
proof -
  obtain iterable s1 where ev:
    "Eval sample_ctx 6 (ArrayLiteral [IntegerLiteral 10, IntegerLiteral 20]) root_env for_in_demo_state
       = Ok (iterable, s1)"
    and before: "Get s1 root_env ''i'' = Some (String ''before'')"
    by (simp add: for_in_demo_state_def run_simps del: Suc_numeral)
  obtain r s' where loop:
    "evalForInExpression sample_ctx 6 ''i'' ''v'' (ArrayLiteral [IntegerLiteral 10, IntegerLiteral 20])
       for_in_demo_block root_env 1 for_in_demo_state = Ok (r, s')"
    by (simp add: for_in_demo_state_def for_in_demo_block_def run_simps sample_is_iterable_def
        sample_next_def sample_reset_def del: Suc_numeral)
  from for_in_restores_bindings [OF ev loop _ before]
  have "Get s' root_env ''i'' = Some (String ''before'')" by simp
  with ev loop before show ?thesis by blast
qed

lemma env_below_Get:
  "env_below k e \<Longrightarrow> (\<And>a. a < k \<Longrightarrow> stores s' a = stores s a) \<Longrightarrow> Get s' e x = Get s e x"
proof (induction s e x rule: Get.induct)
  case (1 s a outer name)
  then show ?case by (auto split: option.splits)
qed

lemma foldl_Set_other_store:
  "a' \<noteq> k \<Longrightarrow>
   stores (foldl (\<lambda>st (param, arg). Set st (Env k outer) param arg) s ps) a' = stores s a'"
  by (induction ps arbitrary: s) auto

lemma foldl_Set_other_name:
  "x \<notin> fst ` set ps \<Longrightarrow>
   stores (foldl (\<lambda>st (param, arg). Set st (Env k outer) param arg) s ps) k x = stores s k x"
  by (induction ps arbitrary: s) auto

lemma fst_set_zip: "fst ` set (zip params args) = set (take (length args) params)"
proof -
  have "map fst (zip params args) = take (length args) params"
    by (simp add: map_fst_zip_take min_def)
  then show ?thesis by (metis set_map)
qed

text \<open>
  C8: a function value \<open>fn\<close> made from a function literal in the environment \<open>env0\<close>,
  and called later in any state \<open>s\<close> (in which \<open>env0\<close> is an environment). The body runs
  in a new environment \<open>env1\<close> and state \<open>s1\<close>, where a name \<open>x\<close> that no argument was
  bound to resolves to what it resolves to in \<open>env0\<close> in the state \<open>s\<close> of the call: the
  function holds the environment, not a copy of its bindings, so a change of \<open>x\<close> in
  \<open>env0\<close> between definition and call is seen by the body.
\<close>

theorem call_resolves_names_at_call_time:
  assumes "Eval c (Suc n) (FunctionLiteral params body) env0 s0 = Ok (fn, s0')"
      and "env_below (next_addr s) env0"
      and "x \<notin> set (take (length args) params)"
    shows "\<exists>env1 s1.
             extendedFunctionEnv params env0 args s = (env1, s1) \<and>
             applyFunction c m fn args line s =
               res_bind (Eval c m (BlockStatement body) env1 s1)
                 (\<lambda>(evaluated, s2). Ok (unwrapReturnValue evaluated, s2)) \<and>
             evalIdentifier c l x env1 s1 = evalIdentifier c l x env0 s"
proof -
  from assms(1) have fn: "fn = Function (next_addr s0) params body env0" by auto
  obtain env1 s1 where ext: "extendedFunctionEnv params env0 args s = (env1, s1)"
    by (cases "extendedFunctionEnv params env0 args s")
  then have env1: "env1 = Env (next_addr s) (Some env0)"
    and s1: "s1 = foldl (\<lambda>st (param, arg). Set st env1 param arg)
           (s\<lparr>stores := (stores s)(next_addr s := Map.empty), next_addr := Suc (next_addr s)\<rparr>)
           (zip params args)"
    by (auto simp: extendedFunctionEnv_def NewEnclosedEnvironment_def)
  have local: "stores s1 (next_addr s) x = None"
    using assms(3) unfolding s1 env1 by (subst foldl_Set_other_name) (simp_all add: fst_set_zip)
  have "stores s1 a = stores s a" if "a < next_addr s" for a
    using that unfolding s1 env1 by (subst foldl_Set_other_store) simp_all
  with assms(2) have "Get s1 env0 x = Get s env0 x" by (rule env_below_Get)
  with local have "Get s1 env1 x = Get s env0 x" by (simp add: env1)
  then have "evalIdentifier c l x env1 s1 = evalIdentifier c l x env0 s"
    by (simp add: evalIdentifier_def)
  with ext fn show ?thesis by simp
qed

theorem call_resolves_names_at_call_time_witness:
  "\<exists>fn s0' env1 s1.
     Eval sample_ctx 1 (FunctionLiteral [] closure_body) root_env closure_def_state = Ok (fn, s0') \<and>
     env_below (next_addr closure_call_state) root_env \<and>
     ''x'' \<notin> set (take (length ([] :: object list)) ([] :: string list)) \<and>
     extendedFunctionEnv [] root_env [] closure_call_state = (env1, s1) \<and>
     evalIdentifier sample_ctx 2 ''x'' env1 s1 = Integer 2 \<and>
     value_of (applyFunction sample_ctx 4 fn [] 4 closure_call_state) = Ok (Integer 2) \<and>
     value_of (Eval sample_ctx 8 closure_program root_env init_state) = Ok (Integer 2)"
proof -
  obtain fn s0' where created:
    "Eval sample_ctx (Suc 0) (FunctionLiteral [] closure_body) root_env closure_def_state = Ok (fn, s0')"
    by simp
  have below: "env_below (next_addr closure_call_state) root_env"
    by (simp add: closure_call_state_def closure_def_state_def root_env_def init_state_def)
  have free: "''x'' \<notin> set (take (length ([] :: object list)) ([] :: string list))"
    by simp
  from call_resolves_names_at_call_time [OF created below free, of 4 4 2]
  obtain env1 s1 where
    ext: "extendedFunctionEnv [] root_env [] closure_call_state = (env1, s1)" and
    app: "applyFunction sample_ctx 4 fn [] 4 closure_call_state =
            res_bind (Eval sample_ctx 4 (BlockStatement closure_body) env1 s1)
              (\<lambda>(evaluated, s2). Ok (unwrapReturnValue evaluated, s2))" and
    ident: "evalIdentifier sample_ctx 2 ''x'' env1 s1 =
            evalIdentifier sample_ctx 2 ''x'' root_env closure_call_state"
    by blast
  have now: "evalIdentifier sample_ctx 2 ''x'' root_env closure_call_state = Integer 2"
    by (simp add: closure_call_state_def closure_def_state_def run_simps)
  from created have fn: "fn = Function 1 [] closure_body root_env"
    by (auto simp: closure_def_state_def root_env_def init_state_def)
  have call: "value_of (applyFunction sample_ctx 4 fn [] 4 closure_call_state) = Ok (Integer 2)"
    unfolding fn
    by (simp add: value_of_def closure_call_state_def closure_def_state_def closure_body_def
        extendedFunctionEnv_def NewEnclosedEnvironment_def run_simps del: Suc_numeral)
  have prog: "value_of (Eval sample_ctx 8 closure_program root_env init_state) = Ok (Integer 2)"
    by (simp add: value_of_def closure_program_def closure_body_def
        extendedFunctionEnv_def NewEnclosedEnvironment_def run_simps del: Suc_numeral)
  from created below free ext ident now call prog show ?thesis
    by (auto simp del: Eval.simps)
qed

section \<open>Errors of operands\<close>







section \<open>Statements that evaluate to nil\<close>

lemma isError_newError [simp]: "isError (newError c format a)"
  by (simp add: isError_def newError_def)











section \<open>The switch expression\<close>

lemma run_chosen_simps [simp]:
  "run_chosen c n env (Ok (None, s)) = Ok (None, s)"
  "run_chosen c n env (Ok (Some block, s)) =
     res_bind (evalBlockStatement c n block env Nil s) (\<lambda>(blockOut, s2). Ok (Some blockOut, s2))"
  "run_chosen c n env (Panic msg) = Panic msg"
  "run_chosen c n env Timeout = Timeout"
  by (simp_all add: run_chosen_def)






end
